theory Spec2Isabelle
  imports Complex_Main "HOL-Library.AList"
begin

section \<open>Data model\<close>

text \<open>
  The lifecycle-manager service of \<^verbatim>\<open>pkg/service/server.go\<close>. Events are
  heap objects: the manager's work queue holds pointers to them, and the setters mutate
  the object a pointer refers to. A pointer is an address; the manager state carries the
  store mapping addresses to event objects.
\<close>

type_synonym addr = nat

text \<open>
  Go's \<^verbatim>\<open>error\<close> values as the code inspects them: an \<^verbatim>\<open>awserr.Error\<close>
  carries a code (read with \<^verbatim>\<open>Code()\<close>), any other error only a text;
  \<^verbatim>\<open>errors.Wrap\<close> puts a text in front of an error and is no \<^verbatim>\<open>awserr.Error\<close>.
\<close>

datatype go_error = AwsErr string | PlainErr string | Wrapped go_error string

text \<open>
  Modelled from the spec: the declaration of \<^verbatim>\<open>LifecycleEvent\<close> is not among the
  source files; the fields are the ones \<^verbatim>\<open>server.go\<close> reads and writes and that
  section 3 of the specification lists. \<^verbatim>\<open>referencedNode\<close> is a struct value
  (the tests call \<^verbatim>\<open>FailEvent\<close> on an event that never had it set), of which the
  code only reads \<^verbatim>\<open>Name\<close>. Times are seconds on the real line.
\<close>

record LifecycleEvent =
  LifecycleHookName :: string
  AccountID :: string
  RequestID :: string
  LifecycleTransition :: string
  AutoScalingGroupName :: string
  EC2InstanceID :: string
  LifecycleActionToken :: string
  receiptHandle :: string
  queueURL :: string
  heartbeatInterval :: int
  referencedNode_Name :: string
  drainCompleted :: bool
  deregisterCompleted :: bool
  eventCompleted :: bool
  startTime :: real
  message :: string

text \<open>The zero value \<^verbatim>\<open>LifecycleEvent{}\<close>.\<close>

definition zero_LifecycleEvent :: LifecycleEvent where
  "zero_LifecycleEvent =
     \<lparr>LifecycleHookName = [], AccountID = [], RequestID = [], LifecycleTransition = [],
      AutoScalingGroupName = [], EC2InstanceID = [], LifecycleActionToken = [],
      receiptHandle = [], queueURL = [], heartbeatInterval = 0, referencedNode_Name = [],
      drainCompleted = False, deregisterCompleted = False, eventCompleted = False,
      startTime = 0, message = []\<rparr>"

text \<open>
  Everything the service does to the outside world is recorded, in order, as an effect:
  queue, scaling-group and cluster calls, metrics and the log lines of the branches.
\<close>

datatype effect =
    is_DeleteMessage: SQS_DeleteMessage string string
  | is_CompleteLifecycleAction: ASG_CompleteLifecycleAction string string string
  | is_PublishEvent: Kube_PublishEvent string string
  | Kube_AnnotateNode string string string
  | Kubectl_drainNode string
  | Kubectl_labelNode string string string
  | FlushCache string
  | ELB_DeregisterInstance string string
  | ELBv2_DeregisterTargets string string int
  | Metric_AddCounter string
  | Metric_IncGauge string
  | Metric_DecGauge string
  | Metric_SetGauge string real
  | Spawn_sendHeartbeat addr
  | Log string string

definition ContinueAction :: string where "ContinueAction = ''CONTINUE''"
definition AbandonAction :: string where "AbandonAction = ''ABANDON''"
definition InProgressAnnotationKey :: string where
  "InProgressAnnotationKey = ''lifecycle-manager.keikoproj.io/in-progress''"

definition EventReasonLifecycleHookProcessed :: string where
  "EventReasonLifecycleHookProcessed = ''EventLifecycleHookProcessed''"
definition EventReasonLifecycleHookFailed :: string where
  "EventReasonLifecycleHookFailed = ''EventLifecycleHookFailed''"
definition EventReasonNodeDrainSucceeded :: string where
  "EventReasonNodeDrainSucceeded = ''EventReasonNodeDrainSucceeded''"
definition EventReasonNodeDrainFailed :: string where
  "EventReasonNodeDrainFailed = ''EventReasonNodeDrainFailed''"
definition EventReasonTargetDeregisterSucceeded :: string where
  "EventReasonTargetDeregisterSucceeded = ''EventReasonTargetDeregisterSucceeded''"
definition EventReasonInstanceDeregisterSucceeded :: string where
  "EventReasonInstanceDeregisterSucceeded = ''EventReasonInstanceDeregisterSucceeded''"
definition ExcludeLabelKey :: string where
  "ExcludeLabelKey = ''alpha.service-controller.kubernetes.io/exclude-balancer''"
definition ExcludeLabelValue :: string where "ExcludeLabelValue = ''true''"
definition EventReasonTargetDeregisterFailed :: string where
  "EventReasonTargetDeregisterFailed = ''EventReasonTargetDeregisterFailed''"
definition EventReasonInstanceDeregisterFailed :: string where
  "EventReasonInstanceDeregisterFailed = ''EventReasonInstanceDeregisterFailed''"

text \<open>
  The manager: the work queue of event pointers, the counters, the configuration flag
  \<^verbatim>\<open>context.WithDeregister\<close>, the store of event objects and the effects so far.
  The counters are Go \<^verbatim>\<open>int\<close>s; no claim reaches their range.
\<close>

record Manager =
  workQueue :: "addr list"
  completedEvents :: int
  failedEvents :: int
  rejectedEvents :: int
  avarageLatency :: real
  WithDeregister :: bool
  events :: "addr \<Rightarrow> LifecycleEvent"
  effects :: "effect list"



definition float64_add :: "(real \<Rightarrow> real) \<Rightarrow> real \<Rightarrow> real \<Rightarrow> real" where
  "float64_add rnd a b = rnd (a + b)"

definition float64_div :: "(real \<Rightarrow> real) \<Rightarrow> real \<Rightarrow> real \<Rightarrow> real" where
  "float64_div rnd a b = rnd (a / b)"

text \<open>
  What the machine and the collaborators answer during one operation: the clock, the
  \<^verbatim>\<open>float64\<close> that \<^verbatim>\<open>time.Since(s).Seconds()\<close> yields for a start time \<open>s\<close>, the
  rounding of the \<^verbatim>\<open>float64\<close> arithmetic, and the error (or nil) that each call of the
  operation returns.
\<close>

record Env =
  now :: real
  since_seconds :: "real \<Rightarrow> real"
  float64_rnd :: "real \<Rightarrow> real"
  deleteMessage_err :: "go_error option"
  completeLifecycleAction_err :: "go_error option"

definition emit :: "effect list \<Rightarrow> Manager \<Rightarrow> Manager" where
  "emit es mgr = mgr\<lparr>effects := effects mgr @ es\<rparr>"

definition SetEventCompleted :: "addr \<Rightarrow> bool \<Rightarrow> Manager \<Rightarrow> Manager" where
  "SetEventCompleted p b mgr =
     mgr\<lparr>events := (events mgr)(p := (events mgr p)\<lparr>eventCompleted := b\<rparr>)\<rparr>"

definition SetDrainCompleted :: "addr \<Rightarrow> bool \<Rightarrow> Manager \<Rightarrow> Manager" where
  "SetDrainCompleted p b mgr =
     mgr\<lparr>events := (events mgr)(p := (events mgr p)\<lparr>drainCompleted := b\<rparr>)\<rparr>"

definition SetDeregisterCompleted :: "addr \<Rightarrow> bool \<Rightarrow> Manager \<Rightarrow> Manager" where
  "SetDeregisterCompleted p b mgr =
     mgr\<lparr>events := (events mgr)(p := (events mgr p)\<lparr>deregisterCompleted := b\<rparr>)\<rparr>"

definition SetEventTimeStarted :: "addr \<Rightarrow> real \<Rightarrow> Manager \<Rightarrow> Manager" where
  "SetEventTimeStarted p t mgr =
     mgr\<lparr>events := (events mgr)(p := (events mgr p)\<lparr>startTime := t\<rparr>)\<rparr>"

text \<open>The effects an operation added to the ones that were there before it.\<close>

definition emitted :: "Manager \<Rightarrow> Manager \<Rightarrow> effect list" where
  "emitted mgr mgr' = drop (length (effects mgr)) (effects mgr')"

subsection \<open>\<^verbatim>\<open>reflect.DeepEqual\<close>\<close>

text \<open>
  The two kinds of value the code hands to \<^verbatim>\<open>reflect.DeepEqual\<close>: a pointer
  \<^verbatim>\<open>*LifecycleEvent\<close> and a struct \<^verbatim>\<open>LifecycleEvent\<close>. Values of different
  types are never deeply equal; two pointers are when they are the same pointer or
  point to deeply equal structs; two structs when their fields are.
\<close>

datatype go_value = PtrLifecycleEvent addr | ValLifecycleEvent LifecycleEvent

fun DeepEqual :: "(addr \<Rightarrow> LifecycleEvent) \<Rightarrow> go_value \<Rightarrow> go_value \<Rightarrow> bool" where
  "DeepEqual h (PtrLifecycleEvent p) (PtrLifecycleEvent q) = (p = q \<or> h p = h q)"
| "DeepEqual h (ValLifecycleEvent a) (ValLifecycleEvent b) = (a = b)"
| "DeepEqual h (PtrLifecycleEvent p) (ValLifecycleEvent b) = False"
| "DeepEqual h (ValLifecycleEvent a) (PtrLifecycleEvent q) = False"

section \<open>Manager operations\<close>

subsection \<open>\<^verbatim>\<open>FailEvent\<close> and \<^verbatim>\<open>RejectEvent\<close>\<close>

text \<open>
  The tail both operations share: the emptiness guard, then \<^verbatim>\<open>deleteMessage\<close>
  with its error only logged.
\<close>

definition guard_and_delete :: "Env \<Rightarrow> string \<Rightarrow> string \<Rightarrow> addr \<Rightarrow> Manager \<Rightarrow> Manager" where
  "guard_and_delete env failmsg url p mgr =
     (if DeepEqual (events mgr) (PtrLifecycleEvent p) (ValLifecycleEvent zero_LifecycleEvent)
      then emit [Log ''error'' ''event failed: invalid message''] mgr
      else emit (SQS_DeleteMessage url (receiptHandle (events mgr p)) #
                 (case deleteMessage_err env of
                    Some e \<Rightarrow> [Log ''error'' failmsg]
                  | None \<Rightarrow> [])) mgr)"

text \<open>The \<^verbatim>\<open>if abandon\<close> block of \<^verbatim>\<open>FailEvent\<close>.\<close>

definition report_abandon :: "Env \<Rightarrow> addr \<Rightarrow> Manager \<Rightarrow> Manager" where
  "report_abandon env p mgr =
     emit ([Log ''warn'' ''abandoning instance'',
            ASG_CompleteLifecycleAction (AutoScalingGroupName (events mgr p))
              (EC2InstanceID (events mgr p)) AbandonAction] @
           (case completeLifecycleAction_err env of
              Some e \<Rightarrow> [Log ''error'' ''completeLifecycleAction Failed'']
            | None \<Rightarrow> [])) mgr"

definition FailEvent :: "Env \<Rightarrow> go_error \<Rightarrow> addr \<Rightarrow> bool \<Rightarrow> Manager \<Rightarrow> Manager" where
  "FailEvent env err p abandon mgr =
     (let url = queueURL (events mgr p);
          mgr = emit [Log ''error'' ''event has failed processing''] mgr;
          mgr = mgr\<lparr>failedEvents := failedEvents mgr + 1\<rparr>;
          mgr = emit [Metric_AddCounter ''FailedEventsTotalMetric''] mgr;
          mgr = SetEventCompleted p True mgr;
          mgr = emit [Kube_PublishEvent EventReasonLifecycleHookFailed
                        (referencedNode_Name (events mgr p))] mgr;
          mgr = (if abandon then report_abandon env p mgr else mgr)
      in guard_and_delete env ''event failed: failed to delete message'' url p mgr)"

definition RejectEvent :: "Env \<Rightarrow> go_error \<Rightarrow> addr \<Rightarrow> Manager \<Rightarrow> Manager" where
  "RejectEvent env err p mgr =
     (let url = queueURL (events mgr p);
          mgr = emit [Log ''debug'' ''event has been rejected for processing''] mgr;
          mgr = mgr\<lparr>rejectedEvents := rejectedEvents mgr + 1\<rparr>;
          mgr = emit [Metric_AddCounter ''RejectedEventsTotalMetric''] mgr
      in guard_and_delete env ''failed to delete message'' url p mgr)"

subsection \<open>\<^verbatim>\<open>AddEvent\<close> and \<^verbatim>\<open>CompleteEvent\<close>\<close>

definition AddEvent :: "Env \<Rightarrow> addr \<Rightarrow> Manager \<Rightarrow> Manager" where
  "AddEvent env p mgr =
     (let mgr = SetEventTimeStarted p (now env) mgr;
          mgr = emit [Metric_IncGauge ''TerminatingInstancesCountMetric''] mgr
      in mgr\<lparr>workQueue := workQueue mgr @ [p]\<rparr>)"

text \<open>The branch of the loop of \<^verbatim>\<open>CompleteEvent\<close> that found the event in the queue.\<close>

definition CompleteEvent_found :: "Env \<Rightarrow> addr \<Rightarrow> string \<Rightarrow> Manager \<Rightarrow> Manager" where
  "CompleteEvent_found env p url mgr =
     (let mgr = emit [Log ''info'' ''event completed processing''] mgr;
          mgr = SetEventCompleted p True mgr
      in emit ([SQS_DeleteMessage url (receiptHandle (events mgr p))] @
               (case deleteMessage_err env of
                  Some e \<Rightarrow> [Log ''error'' ''failed to delete message'']
                | None \<Rightarrow> []) @
               [ASG_CompleteLifecycleAction (AutoScalingGroupName (events mgr p))
                  (EC2InstanceID (events mgr p)) ContinueAction] @
               (case completeLifecycleAction_err env of
                  Some e \<Rightarrow> [Log ''error'' ''failed to complete lifecycle action'']
                | None \<Rightarrow> []) @
               [Kube_PublishEvent EventReasonLifecycleHookProcessed
                  (referencedNode_Name (events mgr p)),
                Metric_AddCounter ''SuccessfulEventsTotalMetric'']) mgr)"

text \<open>
  The loop over the work queue: an entry deeply equal to the event is finalised and
  dropped, every other entry is kept in \<^verbatim>\<open>newQueue\<close>.
\<close>

fun CompleteEvent_loop ::
  "Env \<Rightarrow> addr \<Rightarrow> string \<Rightarrow> addr list \<Rightarrow> addr list \<times> Manager \<Rightarrow> addr list \<times> Manager" where
  "CompleteEvent_loop env p url [] (newQueue, mgr) = (newQueue, mgr)"
| "CompleteEvent_loop env p url (e # es) (newQueue, mgr) =
     CompleteEvent_loop env p url es
       (if DeepEqual (events mgr) (PtrLifecycleEvent p) (PtrLifecycleEvent e)
        then (newQueue, CompleteEvent_found env p url mgr)
        else (newQueue @ [e], mgr))"

definition CompleteEvent :: "Env \<Rightarrow> addr \<Rightarrow> Manager \<Rightarrow> Manager" where
  "CompleteEvent env p mgr =
     (let url = queueURL (events mgr p);
          t = since_seconds env (startTime (events mgr p));
          mgr = (if avarageLatency mgr = 0
                 then mgr\<lparr>avarageLatency := t\<rparr>
                 else mgr\<lparr>avarageLatency :=
                            float64_div (float64_rnd env)
                              (float64_add (float64_rnd env) (avarageLatency mgr) t) 2\<rparr>);
          (newQueue, mgr) = CompleteEvent_loop env p url (workQueue mgr) ([], mgr);
          mgr = mgr\<lparr>workQueue := newQueue, completedEvents := completedEvents mgr + 1\<rparr>
      in emit [Metric_DecGauge ''TerminatingInstancesCountMetric'',
               Metric_SetGauge ''AverageDurationSecondsMetric'' (avarageLatency mgr),
               Log ''info'' ''event completed''] mgr)"





subsection \<open>Deduplication in the worker\<close>

text \<open>
  Modelled from the spec: \<^verbatim>\<open>IsAlreadyExist\<close> is not among the source files; section 4.1
  says it compares \<^verbatim>\<open>requestId\<close> and \<^verbatim>\<open>instanceId\<close> against the current work queue.
\<close>

definition IsAlreadyExist :: "(addr \<Rightarrow> LifecycleEvent) \<Rightarrow> addr \<Rightarrow> addr list \<Rightarrow> bool" where
  "IsAlreadyExist h p queue =
     list_ex (\<lambda>q. RequestID (h q) = RequestID (h p) \<and> EC2InstanceID (h q) = EC2InstanceID (h p))
       queue"

text \<open>
  The system the workers run in: the manager, and the events whose worker has passed the
  duplicate check of \<^verbatim>\<open>newWorker\<close> and has not yet reached \<^verbatim>\<open>AddEvent\<close> in
  \<^verbatim>\<open>Process\<close>. Workers are goroutines, so the steps of different workers interleave:
  a step is one worker's duplicate check (rejecting a duplicate), or one manager
  operation.
\<close>

datatype step =
    Dedup addr
  | Add addr
  | Complete addr
  | Fail addr bool
  | Reject addr

fun do_step :: "Env \<Rightarrow> step \<Rightarrow> addr list \<times> Manager \<Rightarrow> addr list \<times> Manager" where
  "do_step env (Dedup p) (passed, mgr) =
     (if IsAlreadyExist (events mgr) p (workQueue mgr)
      then (passed, RejectEvent env (PlainErr ''event already exists'') p mgr)
      else (passed @ [p], mgr))"
| "do_step env (Add p) (passed, mgr) =
     (if p \<in> set passed then (remove1 p passed, AddEvent env p mgr) else (passed, mgr))"
| "do_step env (Complete p) (passed, mgr) = (passed, CompleteEvent env p mgr)"
| "do_step env (Fail p abandon) (passed, mgr) =
     (passed, FailEvent env (PlainErr ''failed'') p abandon mgr)"
| "do_step env (Reject p) (passed, mgr) =
     (passed, RejectEvent env (PlainErr ''rejected'') p mgr)"

fun run :: "Env \<Rightarrow> step list \<Rightarrow> addr list \<times> Manager \<Rightarrow> addr list \<times> Manager" where
  "run env [] s = s"
| "run env (x # xs) s = run env xs (do_step env x s)"

text \<open>The \<^verbatim>\<open>(requestId, instanceId)\<close> pairs of the entries of the work queue, in order.\<close>

definition queue_keys :: "Manager \<Rightarrow> (string \<times> string) list" where
  "queue_keys mgr =
     map (\<lambda>q. (RequestID (events mgr q), EC2InstanceID (events mgr q))) (workQueue mgr)"

subsection \<open>Concrete inputs\<close>

text \<open>
  An event with the identifiers \<^verbatim>\<open>r-1\<close> and \<^verbatim>\<open>i-1\<close> and a heartbeat interval of a
  minute, a fresh manager whose store holds it at every address (two addresses are two
  messages that carry the same identifiers), and an environment whose calls all succeed
  at clock reading \<open>t\<close>, with exact arithmetic (\<^verbatim>\<open>float64\<close> is exact on the small
  integers and their halves that the examples use).
\<close>

definition ev1 :: LifecycleEvent where
  "ev1 = zero_LifecycleEvent\<lparr>RequestID := ''r-1'', EC2InstanceID := ''i-1'',
           referencedNode_Name := ''node-1'', heartbeatInterval := 60\<rparr>"

definition mgr0 :: Manager where
  "mgr0 = \<lparr>workQueue = [], completedEvents = 0, failedEvents = 0, rejectedEvents = 0,
            avarageLatency = 0, WithDeregister = False, events = (\<lambda>p. ev1), effects = []\<rparr>"

definition env_at :: "real \<Rightarrow> Env" where
  "env_at t = \<lparr>now = t, since_seconds = (\<lambda>s. t - s), float64_rnd = (\<lambda>x. x),
              deleteMessage_err = None, completeLifecycleAction_err = None\<rparr>"

section \<open>Heartbeat driver\<close>

text \<open>A run-time panic of the Go program.\<close>

datatype go_panic = DivideByZero | NilPointerDereference

text \<open>
  \<^verbatim>\<open>heartbeatInterval\<close> is the \<^verbatim>\<open>int64\<close> that \<^verbatim>\<open>getHookHeartbeatInterval\<close>
  returns, so the two quotients of \<^verbatim>\<open>sendHeartbeat\<close> are integer divisions: Go's
  integer division truncates towards zero, and dividing by zero panics. Both dividends
  are far from the ends of the 64-bit range.
\<close>

definition go_quot :: "int \<Rightarrow> int \<Rightarrow> int" where
  "go_quot a b = (if (a < 0) = (b < 0) then \<bar>a\<bar> div \<bar>b\<bar> else - (\<bar>a\<bar> div \<bar>b\<bar>))"

definition go_div :: "int \<Rightarrow> int \<Rightarrow> go_panic + int" where
  "go_div a b = (if b = 0 then Inl DivideByZero else Inr (go_quot a b))"

text \<open>
  What the loop of \<^verbatim>\<open>sendHeartbeat\<close> meets in its \<open>i\<close>-th iteration: the value of
  \<^verbatim>\<open>event.eventCompleted\<close> it reads (other goroutines set the flag) and the result
  of \<^verbatim>\<open>extendLifecycleAction\<close>, should the iteration reach the call.
\<close>

record HeartbeatEnv =
  completed_at :: "nat \<Rightarrow> bool"
  extendLifecycleAction_err :: "nat \<Rightarrow> go_error option"

datatype heartbeat_exit = ExitCompleted | ExitThreshold | ExitHeartbeatFailed

text \<open>
  The loop, from the value of \<^verbatim>\<open>iterationCount\<close> before an iteration; it returns the
  way it left and the number of iterations it performed in all. The sleeps take time
  and nothing else.
\<close>

function sendHeartbeat_loop :: "HeartbeatEnv \<Rightarrow> int \<Rightarrow> nat \<Rightarrow> heartbeat_exit \<times> nat" where
  "sendHeartbeat_loop env maxIterations iterationCount =
     (if completed_at env (Suc iterationCount) then (ExitCompleted, Suc iterationCount)
      else if int (Suc iterationCount) \<ge> maxIterations then (ExitThreshold, Suc iterationCount)
      else (case extendLifecycleAction_err env (Suc iterationCount) of
              Some e \<Rightarrow> (ExitHeartbeatFailed, Suc iterationCount)
            | None \<Rightarrow> sendHeartbeat_loop env maxIterations (Suc iterationCount)))"
  by pat_completeness auto
termination
  by (relation "measure (\<lambda>(env, maxIterations, iterationCount). nat (maxIterations - int iterationCount))")
    auto

declare sendHeartbeat_loop.simps [simp del]

definition sendHeartbeat :: "HeartbeatEnv \<Rightarrow> int \<Rightarrow> go_panic + heartbeat_exit \<times> nat" where
  "sendHeartbeat env interval =
     (case go_div interval 2 of
        Inl pnc \<Rightarrow> Inl pnc
      | Inr recommendedInterval \<Rightarrow>
          (case go_div 3600 recommendedInterval of
             Inl pnc \<Rightarrow> Inl pnc
           | Inr maxIterations \<Rightarrow> Inr (sendHeartbeat_loop env maxIterations 0)))"

text \<open>An event that never completes and a heartbeat call that never fails.\<close>

definition hb_env_quiet :: HeartbeatEnv where
  "hb_env_quiet = \<lparr>completed_at = (\<lambda>i. False), extendLifecycleAction_err = (\<lambda>i. None)\<rparr>"

section \<open>Poller and crash resume\<close>

text \<open>
  What one iteration of the loop of \<^verbatim>\<open>newPoller\<close> does, in order. A message is known
  by its body.
\<close>

datatype poll_effect =
    Poll_SetGauge
  | Poll_LogReceiveError
  | Poll_Sleep int
  | Poll_LogNoMessages
  | is_ChannelSend: Poll_ChannelSend string

text \<open>
  One iteration, from the pair \<^verbatim>\<open>(output, err)\<close> that \<^verbatim>\<open>ReceiveMessage\<close> returned:
  \<^verbatim>\<open>output\<close> is a pointer, \<open>None\<close> when it is nil, otherwise the list
  \<^verbatim>\<open>output.Messages\<close>. The error branch logs and sleeps and control then falls
  through to \<^verbatim>\<open>len(output.Messages)\<close>, which dereferences \<^verbatim>\<open>output\<close>. The
  client the service is built with (\<^verbatim>\<open>sqs.New\<close> in \<^verbatim>\<open>newSQSClient\<close>) hands back a
  non-nil output, with no messages, together with an error. The result is what the
  iteration did and the panic that ended it, if any.
\<close>

definition newPoller_iteration ::
  "int \<Rightarrow> string list option \<times> go_error option \<Rightarrow> poll_effect list \<times> go_panic option" where
  "newPoller_iteration interval r =
     (let before = Poll_SetGauge #
                   (case snd r of Some err \<Rightarrow> [Poll_LogReceiveError, Poll_Sleep interval]
                    | None \<Rightarrow> [])
      in case fst r of
           None \<Rightarrow> (before, Some NilPointerDereference)
         | Some Messages \<Rightarrow>
             (before @ (if length Messages = 0 then [Poll_LogNoMessages] else []) @
              map Poll_ChannelSend Messages, None))"


text \<open>
  The crash-resume loop of \<^verbatim>\<open>Start\<close> over the annotation values of the nodes
  (a Go map, met in some order). \<^verbatim>\<open>deserializeMessage\<close> is not among the source
  files: it is a parameter, returning a message together with an error or nil.
\<close>

datatype 'msg start_effect =
    Start_LogResume string
  | is_LogResumeError: Start_LogResumeError
  | is_SpawnWorker: Start_SpawnWorker 'msg

fun Start_resume :: "(string \<Rightarrow> 'msg \<times> go_error option) \<Rightarrow> (string \<times> string) list \<Rightarrow>
    'msg start_effect list" where
  "Start_resume deserializeMessage [] = []"
| "Start_resume deserializeMessage ((node, sqsMessage) # rest) =
     (if sqsMessage = [] then Start_resume deserializeMessage rest
      else Start_LogResume node #
           (case snd (deserializeMessage sqsMessage) of
              Some err \<Rightarrow> [Start_LogResumeError]
            | None \<Rightarrow> []) @
           Start_SpawnWorker (fst (deserializeMessage sqsMessage)) #
           Start_resume deserializeMessage rest)"

section \<open>Drain and load-balancer deregistration\<close>

text \<open>The error codes of the load-balancer services that the code tests for.\<close>

definition ErrCodeAccessPointNotFoundException :: string where
  "ErrCodeAccessPointNotFoundException = ''LoadBalancerNotFound''"
definition ErrCodeInvalidEndPointException :: string where
  "ErrCodeInvalidEndPointException = ''InvalidInstance''"
definition ErrCodeTargetGroupNotFoundException :: string where
  "ErrCodeTargetGroupNotFoundException = ''TargetGroupNotFound''"
definition ErrCodeInvalidTargetException :: string where
  "ErrCodeInvalidTargetException = ''InvalidTarget''"

text \<open>
  What the collaborators of \<^verbatim>\<open>handleEvent\<close> answer: the drain tool, the cluster, the
  two load-balancer services (per balancer name or target-group ARN), the age of the node
  in minutes with the tunable \<^verbatim>\<open>NodeAgeCacheTTL\<close>, and which ready case the final
  \<^verbatim>\<open>select\<close> takes when both are ready. \<^verbatim>\<open>findInstanceInClassicBalancer\<close> and the
  two waiter calls are not among the source files; they are taken by their results.
\<close>

record LBEnv =
  serializeMessage_err :: "go_error option"
  drainNode_err :: "go_error option"
  labelNode_err :: "go_error option"
  nodeAge :: int
  NodeAgeCacheTTL :: int
  DescribeTargetGroupsPages :: "go_error + string list"
  DescribeLoadBalancersPages :: "go_error + string list"
  DescribeTargetHealth :: "string \<Rightarrow> go_error + (string \<times> int) list"
  findInstanceInClassicBalancer :: "string \<Rightarrow> bool \<times> go_error option"
  deregisterInstance :: "string \<Rightarrow> go_error option"
  DeregisterTargets :: "string \<Rightarrow> go_error option"
  waitForDeregisterInstance :: "string \<Rightarrow> go_error option"
  waitForDeregisterTarget :: "string \<Rightarrow> go_error option"
  select_prefers_finished :: bool

text \<open>A call returns an error or nil, or it never returns.\<close>

datatype call_result = Returns "go_error option" | NeverReturns

subsection \<open>\<^verbatim>\<open>drainNodeTarget\<close>\<close>

definition drainNodeTarget :: "LBEnv \<Rightarrow> addr \<Rightarrow> Manager \<Rightarrow> go_error option \<times> Manager" where
  "drainNodeTarget env p mgr =
     (let node = referencedNode_Name (events mgr p);
          mgr = emit [Kubectl_drainNode node] mgr
      in case drainNode_err env of
           Some err \<Rightarrow> (Some err, emit [Kube_PublishEvent EventReasonNodeDrainFailed node] mgr)
         | None \<Rightarrow>
             (None, emit [Metric_AddCounter ''SuccessfulNodeDrainTotalMetric'',
                          Kube_PublishEvent EventReasonNodeDrainSucceeded node]
                      (SetDrainCompleted p True mgr)))"

subsection \<open>Membership discovery\<close>

definition findInstanceInTargetGroup ::
  "LBEnv \<Rightarrow> string \<Rightarrow> string \<Rightarrow> bool \<times> int \<times> go_error option" where
  "findInstanceInTargetGroup env arn instanceID =
     (case DescribeTargetHealth env arn of
        Inl err \<Rightarrow> (False, 0, Some err)
      | Inr descs \<Rightarrow>
          (case find (\<lambda>desc. fst desc = instanceID) descs of
             Some desc \<Rightarrow> (True, snd desc, None)
           | None \<Rightarrow> (False, 0, None)))"

text \<open>
  The Go map \<^verbatim>\<open>activeTargetGroups\<close> is an association list with one entry per key;
  a \<^verbatim>\<open>range\<close> over it meets the entries in the order of the list (Go fixes no order).
\<close>

fun find_target_groups ::
  "LBEnv \<Rightarrow> string \<Rightarrow> string list \<Rightarrow> (string \<times> int) list \<Rightarrow> go_error + (string \<times> int) list" where
  "find_target_groups env instanceID [] activeTargetGroups = Inr activeTargetGroups"
| "find_target_groups env instanceID (arn # tgs) activeTargetGroups =
     (case snd (snd (findInstanceInTargetGroup env arn instanceID)) of
        Some err \<Rightarrow>
          (if err = AwsErr ErrCodeTargetGroupNotFoundException
           then find_target_groups env instanceID tgs activeTargetGroups
           else Inl err)
      | None \<Rightarrow>
          (if \<not> fst (findInstanceInTargetGroup env arn instanceID)
           then find_target_groups env instanceID tgs activeTargetGroups
           else find_target_groups env instanceID tgs
                  (AList.update arn (fst (snd (findInstanceInTargetGroup env arn instanceID)))
                     activeTargetGroups)))"

fun find_classic_balancers ::
  "LBEnv \<Rightarrow> string \<Rightarrow> string list \<Rightarrow> string list \<Rightarrow> go_error + string list" where
  "find_classic_balancers env instanceID [] activeLoadBalancers = Inr activeLoadBalancers"
| "find_classic_balancers env instanceID (elbName # descs) activeLoadBalancers =
     (case snd (findInstanceInClassicBalancer env elbName) of
        Some err \<Rightarrow>
          (if err = AwsErr ErrCodeAccessPointNotFoundException
           then find_classic_balancers env instanceID descs activeLoadBalancers
           else Inl err)
      | None \<Rightarrow>
          (if \<not> fst (findInstanceInClassicBalancer env elbName)
           then find_classic_balancers env instanceID descs activeLoadBalancers
           else find_classic_balancers env instanceID descs (activeLoadBalancers @ [elbName])))"

subsection \<open>Deregister phase\<close>

text \<open>
  The state of the deregister phase: the contents of the buffered \<^verbatim>\<open>errChannel\<close>,
  the effects so far, and the pools whose deregistration was requested successfully.
\<close>

record dereg_state =
  errChannel :: "go_error list"
  dereg_effects :: "effect list"
  deregisteredLoadBalancers :: "string list"
  deregisteredTargetGroups :: "(string \<times> int) list"

definition dereg_init :: dereg_state where
  "dereg_init = \<lparr>errChannel = [], dereg_effects = [], deregisteredLoadBalancers = [],
                  deregisteredTargetGroups = []\<rparr>"

definition dereg_emit :: "effect list \<Rightarrow> dereg_state \<Rightarrow> dereg_state" where
  "dereg_emit es st = st\<lparr>dereg_effects := dereg_effects st @ es\<rparr>"

text \<open>An iteration ends with \<^verbatim>\<open>continue\<close> (or by reaching its end) or returns an error.\<close>

datatype loop_step = Continue dereg_state | Return go_error dereg_state

text \<open>
  One iteration of the loop over \<^verbatim>\<open>activeLoadBalancers\<close>; \<open>completed\<close> is the value
  of \<^verbatim>\<open>event.eventCompleted\<close> that the iteration reads.
\<close>

definition deregister_classic_body ::
  "LBEnv \<Rightarrow> bool \<Rightarrow> string \<Rightarrow> string \<Rightarrow> string \<Rightarrow> dereg_state \<Rightarrow> loop_step" where
  "deregister_classic_body env completed instanceID node elbName st =
     (if completed
      then Return (PlainErr ''event finished execution during deregistration'') st
      else
        (let st = dereg_emit [ELB_DeregisterInstance elbName instanceID] st
         in case deregisterInstance env elbName of
              Some err \<Rightarrow>
                (if err = AwsErr ErrCodeAccessPointNotFoundException
                 then Continue (dereg_emit [Log ''warn'' ''ELB not found, skipping''] st)
                 else if err = AwsErr ErrCodeInvalidEndPointException
                 then Continue (dereg_emit [Log ''warn'' ''ELB target not found, skipping''] st)
                 else Continue
                        (dereg_emit [Kube_PublishEvent EventReasonInstanceDeregisterFailed node]
                           ((dereg_emit [Log ''error'' ''instance deregistration failed''] st)
                              \<lparr>errChannel := errChannel st @ [err]\<rparr>)))
            | None \<Rightarrow>
                Continue (st\<lparr>deregisteredLoadBalancers :=
                                deregisteredLoadBalancers st @ [elbName]\<rparr>)))"

fun deregister_classic_loop ::
  "LBEnv \<Rightarrow> bool \<Rightarrow> string \<Rightarrow> string \<Rightarrow> string list \<Rightarrow> dereg_state \<Rightarrow> loop_step" where
  "deregister_classic_loop env completed instanceID node [] st = Continue st"
| "deregister_classic_loop env completed instanceID node (elbName # rest) st =
     (case deregister_classic_body env completed instanceID node elbName st of
        Return err st' \<Rightarrow> Return err st'
      | Continue st' \<Rightarrow> deregister_classic_loop env completed instanceID node rest st')"

text \<open>One iteration of the loop over \<^verbatim>\<open>activeTargetGroups\<close>.\<close>

definition deregister_target_body ::
  "LBEnv \<Rightarrow> bool \<Rightarrow> string \<Rightarrow> string \<Rightarrow> string \<times> int \<Rightarrow> dereg_state \<Rightarrow> loop_step" where
  "deregister_target_body env completed instanceID node tg st =
     (if completed
      then Return (PlainErr ''event finished execution during deregistration'') st
      else
        (let st = dereg_emit [ELBv2_DeregisterTargets (fst tg) instanceID (snd tg)] st
         in case DeregisterTargets env (fst tg) of
              Some err \<Rightarrow>
                (if err = AwsErr ErrCodeTargetGroupNotFoundException
                 then Continue (dereg_emit [Log ''warn'' ''target group not found, skipping''] st)
                 else if err = AwsErr ErrCodeInvalidTargetException
                 then Continue (dereg_emit [Log ''warn'' ''target not found, skipping''] st)
                 else Continue
                        (dereg_emit [Kube_PublishEvent EventReasonTargetDeregisterFailed node]
                           ((dereg_emit [Log ''error'' ''target deregistration failed''] st)
                              \<lparr>errChannel := errChannel st @ [err]\<rparr>)))
            | None \<Rightarrow>
                Continue (st\<lparr>deregisteredTargetGroups :=
                                AList.update (fst tg) (snd tg) (deregisteredTargetGroups st)\<rparr>)))"

fun deregister_target_loop ::
  "LBEnv \<Rightarrow> bool \<Rightarrow> string \<Rightarrow> string \<Rightarrow> (string \<times> int) list \<Rightarrow> dereg_state \<Rightarrow> loop_step" where
  "deregister_target_loop env completed instanceID node [] st = Continue st"
| "deregister_target_loop env completed instanceID node (tg # rest) st =
     (case deregister_target_body env completed instanceID node tg st of
        Return err st' \<Rightarrow> Return err st'
      | Continue st' \<Rightarrow> deregister_target_loop env completed instanceID node rest st')"

text \<open>The deregister phase: the classic balancers first, then the target groups.\<close>

definition deregister_phase ::
  "LBEnv \<Rightarrow> bool \<Rightarrow> string \<Rightarrow> string \<Rightarrow> (string \<times> int) list \<Rightarrow> string list \<Rightarrow> loop_step" where
  "deregister_phase env completed instanceID node activeTargetGroups activeLoadBalancers =
     (case deregister_classic_loop env completed instanceID node activeLoadBalancers dereg_init of
        Return err st \<Rightarrow> Return err st
      | Continue st \<Rightarrow>
          deregister_target_loop env completed instanceID node activeTargetGroups st)"

subsection \<open>Wait phase and coordinator\<close>

text \<open>One waiter goroutine is started per pool recorded by the deregister phase.\<close>

datatype waiter = ClassicWaiter string | TargetWaiter string int

definition spawned_waiters :: "dereg_state \<Rightarrow> waiter list" where
  "spawned_waiters st =
     map ClassicWaiter (deregisteredLoadBalancers st) @
     map (\<lambda>tg. TargetWaiter (fst tg) (snd tg)) (deregisteredTargetGroups st)"

text \<open>
  A waiter run to its end: the errors it sends to \<^verbatim>\<open>errChannel\<close> and its effects.
  Every waiter ends with the deferred \<^verbatim>\<open>wg.Done()\<close>.
\<close>

fun run_waiter :: "LBEnv \<Rightarrow> string \<Rightarrow> waiter \<Rightarrow> go_error list \<times> effect list" where
  "run_waiter env node (ClassicWaiter elbName) =
     (case waitForDeregisterInstance env elbName of
        Some err \<Rightarrow>
          (if err = AwsErr ErrCodeAccessPointNotFoundException
           then ([], [Log ''warn'' ''ELB not found, skipping''])
           else ([err], []))
      | None \<Rightarrow> ([], [Kube_PublishEvent EventReasonInstanceDeregisterSucceeded node]))"
| "run_waiter env node (TargetWaiter arn port) =
     (case waitForDeregisterTarget env arn of
        Some err \<Rightarrow>
          (if err = AwsErr ErrCodeTargetGroupNotFoundException
           then ([], [Log ''warn'' ''target group not found, skipping''])
           else ([err], []))
      | None \<Rightarrow> ([], [Kube_PublishEvent EventReasonTargetDeregisterSucceeded node]))"

definition run_waiters :: "LBEnv \<Rightarrow> string \<Rightarrow> waiter list \<Rightarrow> dereg_state \<Rightarrow> dereg_state" where
  "run_waiters env node ws st =
     st\<lparr>errChannel := errChannel st @ concat (map (\<lambda>w. fst (run_waiter env node w)) ws),
        dereg_effects := dereg_effects st @ concat (map (\<lambda>w. snd (run_waiter env node w)) ws)\<rparr>"

text \<open>
  The final \<^verbatim>\<open>select\<close>, once every started waiter has run to its end. The goroutine
  behind \<^verbatim>\<open>finished\<close> closes the channel when \<^verbatim>\<open>wg.Wait()\<close> returns, that is when
  as many \<^verbatim>\<open>Done\<close> calls were made as the counter was set to by \<^verbatim>\<open>wg.Add\<close>;
  \<^verbatim>\<open>errChannel\<close> is ready when it holds an error, and hands out the oldest. With both
  ready the runtime picks one; with none ready, and nobody left to make one ready, the
  \<^verbatim>\<open>select\<close> blocks for good.
\<close>

datatype select_result = SelectFinished | SelectErr go_error | SelectBlocked

definition coordinator_select :: "bool \<Rightarrow> nat \<Rightarrow> nat \<Rightarrow> go_error list \<Rightarrow> select_result" where
  "coordinator_select prefers_finished wg_counter done_calls errs =
     (if done_calls = wg_counter \<and> (prefers_finished \<or> errs = []) then SelectFinished
      else case errs of err # _ \<Rightarrow> SelectErr err | [] \<Rightarrow> SelectBlocked)"

definition wait_and_select ::
  "LBEnv \<Rightarrow> addr \<Rightarrow> string \<Rightarrow> nat \<Rightarrow> dereg_state \<Rightarrow> Manager \<Rightarrow> call_result \<times> Manager" where
  "wait_and_select env p node workQueueLength st mgr =
     (let st = run_waiters env node (spawned_waiters st) st;
          mgr = emit (dereg_effects st) mgr
      in case coordinator_select (select_prefers_finished env) workQueueLength
                (length (spawned_waiters st)) (errChannel st) of
           SelectBlocked \<Rightarrow> (NeverReturns, mgr)
         | SelectErr err \<Rightarrow> (Returns (Some (Wrapped err ''failed to process alb-drain: '')), mgr)
         | SelectFinished \<Rightarrow>
             (Returns None,
              SetDeregisterCompleted p True
                (emit [Metric_AddCounter ''SuccessfulLBDeregisterTotalMetric''] mgr)))"

text \<open>
  From the sizing of the wait group to the end of \<^verbatim>\<open>drainLoadbalancerTarget\<close>:
  \<^verbatim>\<open>workQueueLength\<close> counts the active pools.
\<close>

definition deregister_and_wait ::
  "LBEnv \<Rightarrow> addr \<Rightarrow> (string \<times> int) list \<Rightarrow> string list \<Rightarrow> Manager \<Rightarrow> call_result \<times> Manager" where
  "deregister_and_wait env p activeTargetGroups activeLoadBalancers mgr =
     (let workQueueLength = length activeTargetGroups + length activeLoadBalancers;
          node = referencedNode_Name (events mgr p)
      in case deregister_phase env (eventCompleted (events mgr p)) (EC2InstanceID (events mgr p))
                node activeTargetGroups activeLoadBalancers of
           Return err st \<Rightarrow> (Returns (Some err), emit (dereg_effects st) mgr)
         | Continue st \<Rightarrow> wait_and_select env p node workQueueLength st mgr)"

definition discover_and_deregister :: "LBEnv \<Rightarrow> addr \<Rightarrow> Manager \<Rightarrow> call_result \<times> Manager" where
  "discover_and_deregister env p mgr =
     (case DescribeTargetGroupsPages env of
        Inl err \<Rightarrow> (Returns (Some err), mgr)
      | Inr targetGroups \<Rightarrow>
          (case DescribeLoadBalancersPages env of
             Inl err \<Rightarrow> (Returns (Some err), mgr)
           | Inr elbDescriptions \<Rightarrow>
               (case find_target_groups env (EC2InstanceID (events mgr p)) targetGroups [] of
                  Inl err \<Rightarrow> (Returns (Some err), mgr)
                | Inr activeTargetGroups \<Rightarrow>
                    (case find_classic_balancers env (EC2InstanceID (events mgr p))
                            elbDescriptions [] of
                       Inl err \<Rightarrow> (Returns (Some err), mgr)
                     | Inr activeLoadBalancers \<Rightarrow>
                         deregister_and_wait env p activeTargetGroups activeLoadBalancers mgr))))"

definition drainLoadbalancerTarget :: "LBEnv \<Rightarrow> addr \<Rightarrow> Manager \<Rightarrow> call_result \<times> Manager" where
  "drainLoadbalancerTarget env p mgr =
     (if \<not> WithDeregister mgr then (Returns None, mgr)
      else
        (let mgr = emit [Kubectl_labelNode (referencedNode_Name (events mgr p))
                           ExcludeLabelKey ExcludeLabelValue] mgr
         in case labelNode_err env of
              Some err \<Rightarrow> (Returns (Some err), mgr)
            | None \<Rightarrow>
                discover_and_deregister env p
                  (if nodeAge env \<le> NodeAgeCacheTTL env
                   then emit [FlushCache ''elasticloadbalancing.DescribeTargetHealth'',
                              FlushCache ''elasticloadbalancing.DescribeInstanceHealth''] mgr
                   else mgr)))"

subsection \<open>\<^verbatim>\<open>handleEvent\<close>\<close>

text \<open>
  The first half of \<^verbatim>\<open>handleEvent\<close>, up to the gauge update after the node drain: it
  yields the value that \<^verbatim>\<open>err\<close> holds when the deregister stage is called.
\<close>

definition handleEvent_drain_stage ::
  "LBEnv \<Rightarrow> addr \<Rightarrow> Manager \<Rightarrow> go_error option \<times> Manager" where
  "handleEvent_drain_stage env p mgr =
     (let mgr = emit [Spawn_sendHeartbeat p] mgr;
          mgr = (case serializeMessage_err env of
                   Some e \<Rightarrow> emit [Log ''error'' ''failed to serialize message for storage''] mgr
                 | None \<Rightarrow> emit [Kube_AnnotateNode (referencedNode_Name (events mgr p))
                                   InProgressAnnotationKey (message (events mgr p))] mgr);
          mgr = emit [Metric_IncGauge ''DrainingInstancesCountMetric''] mgr;
          r = drainNodeTarget env p mgr
      in (fst r,
          emit ((if fst r \<noteq> None
                 then [Metric_DecGauge ''DrainingInstancesCountMetric'',
                       Metric_AddCounter ''FailedNodeDrainTotalMetric'']
                 else []) @
                [Metric_DecGauge ''DrainingInstancesCountMetric'']) (snd r)))"

text \<open>
  The second half: \<^verbatim>\<open>err\<close> is assigned the result of \<^verbatim>\<open>drainLoadbalancerTarget\<close>,
  whatever it held before, and that value decides what \<^verbatim>\<open>handleEvent\<close> returns.
\<close>

definition handleEvent :: "LBEnv \<Rightarrow> addr \<Rightarrow> Manager \<Rightarrow> call_result \<times> Manager" where
  "handleEvent env p mgr =
     (let mgr = snd (handleEvent_drain_stage env p mgr);
          mgr = emit [Metric_IncGauge ''DeregisteringInstancesCountMetric''] mgr
      in case drainLoadbalancerTarget env p mgr of
           (NeverReturns, mgr) \<Rightarrow> (NeverReturns, mgr)
         | (Returns (Some err), mgr) \<Rightarrow>
             (Returns (Some err),
              emit [Metric_DecGauge ''DeregisteringInstancesCountMetric'',
                    Metric_AddCounter ''FailedLBDeregisterTotalMetric'',
                    Metric_DecGauge ''DeregisteringInstancesCountMetric''] mgr)
         | (Returns None, mgr) \<Rightarrow>
             (Returns None,
              emit [Metric_DecGauge ''DeregisteringInstancesCountMetric'',
                    Kube_AnnotateNode (referencedNode_Name (events mgr p))
                      InProgressAnnotationKey []] mgr))"

text \<open>\<^verbatim>\<open>Process\<close>: add, handle, and complete when \<^verbatim>\<open>handleEvent\<close> returned nil.\<close>

definition Process :: "Env \<Rightarrow> LBEnv \<Rightarrow> addr \<Rightarrow> Manager \<Rightarrow> call_result \<times> Manager" where
  "Process env lbenv p mgr =
     (case handleEvent lbenv p (AddEvent env p mgr) of
        (Returns None, mgr) \<Rightarrow> (Returns None, CompleteEvent env p mgr)
      | (r, mgr) \<Rightarrow> (r, mgr))"

subsection \<open>Concrete inputs for the drain stages\<close>

text \<open>
  Every call succeeds, no target group exists, the instance is a member of the classic
  balancer \<^verbatim>\<open>my-classic-elb\<close>, and waiting for its deregistration succeeds.
\<close>

definition lb_env_ok :: LBEnv where
  "lb_env_ok =
     \<lparr>serializeMessage_err = None, drainNode_err = None, labelNode_err = None,
      nodeAge = 200, NodeAgeCacheTTL = 90,
      DescribeTargetGroupsPages = Inr [], DescribeLoadBalancersPages = Inr [''my-classic-elb''],
      DescribeTargetHealth = (\<lambda>arn. Inr []),
      findInstanceInClassicBalancer = (\<lambda>elbName. (True, None)),
      deregisterInstance = (\<lambda>elbName. None), DeregisterTargets = (\<lambda>arn. None),
      waitForDeregisterInstance = (\<lambda>elbName. None), waitForDeregisterTarget = (\<lambda>arn. None),
      select_prefers_finished = True\<rparr>"

text \<open>The same, but the drain tool fails.\<close>

definition lb_env_drain_fails :: LBEnv where
  "lb_env_drain_fails = lb_env_ok\<lparr>drainNode_err := Some (PlainErr ''drain failed'')\<rparr>"

text \<open>The same as the first, but the balancer is gone when the deregister call is made.\<close>

definition lb_env_skip :: LBEnv where
  "lb_env_skip =
     lb_env_ok\<lparr>deregisterInstance :=
                  (\<lambda>elbName. Some (AwsErr ErrCodeAccessPointNotFoundException))\<rparr>"

text \<open>The same as the first, but the deregister call fails with another error.\<close>

definition lb_env_other_error :: LBEnv where
  "lb_env_other_error =
     lb_env_ok\<lparr>deregisterInstance := (\<lambda>elbName. Some (AwsErr ''some-other-error'')),
               DeregisterTargets := (\<lambda>arn. Some (AwsErr ''some-other-error''))\<rparr>"

text \<open>The fresh manager with deregistration switched on.\<close>

definition mgr_dereg :: Manager where
  "mgr_dereg = mgr0\<lparr>WithDeregister := True\<rparr>"

section \<open>Properties\<close>

lemma effects_emit [simp]: "effects (emit es mgr) = effects mgr @ es"
  by (simp add: emit_def)

lemma events_emit [simp]: "events (emit es mgr) = events mgr"
  by (simp add: emit_def)

lemma failedEvents_emit [simp]: "failedEvents (emit es mgr) = failedEvents mgr"
  by (simp add: emit_def)

lemma rejectedEvents_emit [simp]: "rejectedEvents (emit es mgr) = rejectedEvents mgr"
  by (simp add: emit_def)

lemma effects_SetEventCompleted [simp]: "effects (SetEventCompleted p b mgr) = effects mgr"
  by (simp add: SetEventCompleted_def)

lemma failedEvents_SetEventCompleted [simp]:
  "failedEvents (SetEventCompleted p b mgr) = failedEvents mgr"
  by (simp add: SetEventCompleted_def)

lemma events_SetEventCompleted [simp]:
  "events (SetEventCompleted p b mgr) =
     (events mgr)(p := (events mgr p)\<lparr>eventCompleted := b\<rparr>)"
  by (simp add: SetEventCompleted_def)

lemma guard_and_delete_eq:
  "guard_and_delete env failmsg url p mgr =
     emit (SQS_DeleteMessage url (receiptHandle (events mgr p)) #
           (case deleteMessage_err env of Some e \<Rightarrow> [Log ''error'' failmsg] | None \<Rightarrow> [])) mgr"
  by (simp add: guard_and_delete_def)

lemma events_report_abandon [simp]: "events (report_abandon env p mgr) = events mgr"
  by (simp add: report_abandon_def)

lemma failedEvents_report_abandon [simp]:
  "failedEvents (report_abandon env p mgr) = failedEvents mgr"
  by (simp add: report_abandon_def)

lemma effects_FailEvent:
  "effects (FailEvent env err p abandon mgr) =
     effects mgr @
     [Log ''error'' ''event has failed processing'',
      Metric_AddCounter ''FailedEventsTotalMetric'',
      Kube_PublishEvent EventReasonLifecycleHookFailed (referencedNode_Name (events mgr p))] @
     (if abandon
      then [Log ''warn'' ''abandoning instance'',
            ASG_CompleteLifecycleAction (AutoScalingGroupName (events mgr p))
              (EC2InstanceID (events mgr p)) AbandonAction] @
           (case completeLifecycleAction_err env of
              Some e \<Rightarrow> [Log ''error'' ''completeLifecycleAction Failed'']
            | None \<Rightarrow> [])
      else []) @
     SQS_DeleteMessage (queueURL (events mgr p)) (receiptHandle (events mgr p)) #
     (case deleteMessage_err env of
        Some e \<Rightarrow> [Log ''error'' ''event failed: failed to delete message'']
      | None \<Rightarrow> [])"
  by (simp add: FailEvent_def guard_and_delete_eq report_abandon_def)

lemma effects_RejectEvent:
  "effects (RejectEvent env err p mgr) =
     effects mgr @
     [Log ''debug'' ''event has been rejected for processing'',
      Metric_AddCounter ''RejectedEventsTotalMetric'',
      SQS_DeleteMessage (queueURL (events mgr p)) (receiptHandle (events mgr p))] @
     (case deleteMessage_err env of
        Some e \<Rightarrow> [Log ''error'' ''failed to delete message'']
      | None \<Rightarrow> [])"
  by (simp add: RejectEvent_def guard_and_delete_eq)

lemma failedEvents_FailEvent:
  "failedEvents (FailEvent env err p abandon mgr) = failedEvents mgr + 1"
  by (simp add: FailEvent_def guard_and_delete_eq Let_def)

lemma events_FailEvent:
  "events (FailEvent env err p abandon mgr) = events (SetEventCompleted p True mgr)"
  by (simp add: FailEvent_def guard_and_delete_eq Let_def)

text \<open>
  C9: the emptiness guard of \<^verbatim>\<open>FailEvent\<close> and \<^verbatim>\<open>RejectEvent\<close> compares a
  pointer with a struct value, so it is false for every event, the zero-valued one
  included, and both operations go on to the \<^verbatim>\<open>deleteMessage\<close> call: the last
  queue effect of either is the deletion of the event's message.
\<close>

theorem emptiness_guard_never_true:
  "\<not> DeepEqual h (PtrLifecycleEvent p) (ValLifecycleEvent zero_LifecycleEvent) \<and>
   SQS_DeleteMessage (queueURL (events mgr p)) (receiptHandle (events mgr p))
     \<in> set (emitted mgr (FailEvent env err p abandon mgr)) \<and>
   SQS_DeleteMessage (queueURL (events mgr p)) (receiptHandle (events mgr p))
     \<in> set (emitted mgr (RejectEvent env err p mgr))"
  by (simp add: effects_FailEvent effects_RejectEvent emitted_def)

text \<open>
  C3: for every event, whatever its fields hold (a node that was never set is the empty
  name), \<^verbatim>\<open>FailEvent\<close> adds one to the failed counter, leaves the event completed,
  publishes exactly one cluster event, the failure event, reports \<^verbatim>\<open>ABANDON\<close> exactly
  once when \<^verbatim>\<open>abandon\<close> is set and not at all otherwise, and deletes the queue message
  exactly once.
\<close>

theorem FailEvent_bookkeeping:
  "failedEvents (FailEvent env err p abandon mgr) = failedEvents mgr + 1 \<and>
   eventCompleted (events (FailEvent env err p abandon mgr) p) \<and>
   filter is_PublishEvent (emitted mgr (FailEvent env err p abandon mgr)) =
     [Kube_PublishEvent EventReasonLifecycleHookFailed (referencedNode_Name (events mgr p))] \<and>
   filter is_CompleteLifecycleAction (emitted mgr (FailEvent env err p abandon mgr)) =
     (if abandon
      then [ASG_CompleteLifecycleAction (AutoScalingGroupName (events mgr p))
              (EC2InstanceID (events mgr p)) AbandonAction]
      else []) \<and>
   filter is_DeleteMessage (emitted mgr (FailEvent env err p abandon mgr)) =
     [SQS_DeleteMessage (queueURL (events mgr p)) (receiptHandle (events mgr p))]"
  by (simp add: effects_FailEvent failedEvents_FailEvent events_FailEvent emitted_def
      split: option.splits)

lemma avarageLatency_emit [simp]: "avarageLatency (emit es mgr) = avarageLatency mgr"
  by (simp add: emit_def)

lemma avarageLatency_SetEventCompleted [simp]:
  "avarageLatency (SetEventCompleted p b mgr) = avarageLatency mgr"
  by (simp add: SetEventCompleted_def)

lemma avarageLatency_found [simp]:
  "avarageLatency (CompleteEvent_found env p url mgr) = avarageLatency mgr"
  by (simp add: CompleteEvent_found_def Let_def)

lemma startTime_found [simp]:
  "startTime (events (CompleteEvent_found env p url mgr) q) = startTime (events mgr q)"
  by (simp add: CompleteEvent_found_def Let_def)














lemma workQueue_emit [simp]: "workQueue (emit es mgr) = workQueue mgr"
  by (simp add: emit_def)

lemma AddEvent_queue: "workQueue (AddEvent env p mgr) = workQueue mgr @ [p]"
  by (simp add: AddEvent_def Let_def SetEventTimeStarted_def)

lemma AddEvent_keys:
  "RequestID (events (AddEvent env p mgr) q) = RequestID (events mgr q) \<and>
   EC2InstanceID (events (AddEvent env p mgr) q) = EC2InstanceID (events mgr q)"
  by (simp add: AddEvent_def Let_def SetEventTimeStarted_def)

text \<open>
  When nothing comes between a worker's duplicate check and its \<^verbatim>\<open>AddEvent\<close>, the
  check keeps the pairs of the queue distinct.
\<close>

lemma queue_keys_AddEvent:
  "queue_keys (AddEvent env p mgr) =
     queue_keys mgr @ [(RequestID (events mgr p), EC2InstanceID (events mgr p))]"
  by (simp add: queue_keys_def AddEvent_queue AddEvent_keys)

lemma IsAlreadyExist_keys:
  "IsAlreadyExist h p qs \<longleftrightarrow>
     (RequestID (h p), EC2InstanceID (h p)) \<in> set (map (\<lambda>q. (RequestID (h q), EC2InstanceID (h q))) qs)"
  by (induction qs) (auto simp: IsAlreadyExist_def)

lemma IsAlreadyExist_iff:
  "IsAlreadyExist (events mgr) p (workQueue mgr) \<longleftrightarrow>
     (RequestID (events mgr p), EC2InstanceID (events mgr p)) \<in> set (queue_keys mgr)"
  by (simp only: IsAlreadyExist_keys queue_keys_def)

lemma atomic_dedup_keeps_distinct:
  "distinct (queue_keys mgr) \<Longrightarrow> \<not> IsAlreadyExist (events mgr) p (workQueue mgr) \<Longrightarrow>
   distinct (queue_keys (AddEvent env p mgr))"
  by (simp add: queue_keys_AddEvent IsAlreadyExist_iff)

text \<open>
  C4: two workers hold messages with the same \<^verbatim>\<open>(requestId, instanceId)\<close>. Both run
  the duplicate check of \<^verbatim>\<open>newWorker\<close> while the queue is still empty, both pass, and
  both reach \<^verbatim>\<open>AddEvent\<close>, which appends without looking: the work queue then holds
  the pair twice.
\<close>

theorem duplicate_after_interleaved_dedup:
  "queue_keys (snd (run (env_at 0) [Dedup 0, Dedup 1, Add 0, Add 1] ([], mgr0))) =
     [(''r-1'', ''i-1''), (''r-1'', ''i-1'')] \<and>
   \<not> distinct (queue_keys (snd (run (env_at 0) [Dedup 0, Dedup 1, Add 0, Add 1] ([], mgr0))))"
proof -
  have q0: "workQueue mgr0 = []" and e0: "events mgr0 = (\<lambda>p. ev1)"
    by (simp_all add: mgr0_def)
  have r: "run (env_at 0) [Dedup 0, Dedup 1, Add 0, Add 1] ([], mgr0) =
           ([], AddEvent (env_at 0) 1 (AddEvent (env_at 0) 0 mgr0))"
    by (simp add: IsAlreadyExist_def q0)
  have k: "queue_keys (AddEvent (env_at 0) 1 (AddEvent (env_at 0) 0 mgr0)) =
           [(''r-1'', ''i-1''), (''r-1'', ''i-1'')]"
    by (simp add: queue_keys_def AddEvent_queue AddEvent_keys q0 e0 ev1_def)
  show ?thesis unfolding r snd_conv k by simp
qed

lemma sendHeartbeat_loop_bounds:
  "Suc c \<le> snd (sendHeartbeat_loop env m c) \<and>
   int (snd (sendHeartbeat_loop env m c)) \<le> max (int (Suc c)) m \<and>
   (\<forall>k>c. completed_at env k \<or> extendLifecycleAction_err env k \<noteq> None \<longrightarrow>
      snd (sendHeartbeat_loop env m c) \<le> k)"
proof (induction env m c rule: sendHeartbeat_loop.induct)
  case (1 env m c)
  show ?case
  proof (cases "completed_at env (Suc c) \<or> int (Suc c) \<ge> m \<or>
                extendLifecycleAction_err env (Suc c) \<noteq> None")
    case True
    then have "snd (sendHeartbeat_loop env m c) = Suc c"
      by (subst sendHeartbeat_loop.simps) (auto split: option.splits)
    then show ?thesis by auto
  next
    case False
    then have eq: "sendHeartbeat_loop env m c = sendHeartbeat_loop env m (Suc c)"
      by (subst sendHeartbeat_loop.simps) auto
    from False have ih:
      "Suc (Suc c) \<le> snd (sendHeartbeat_loop env m (Suc c)) \<and>
       int (snd (sendHeartbeat_loop env m (Suc c))) \<le> max (int (Suc (Suc c))) m \<and>
       (\<forall>k>Suc c. completed_at env k \<or> extendLifecycleAction_err env k \<noteq> None \<longrightarrow>
          snd (sendHeartbeat_loop env m (Suc c)) \<le> k)"
      using "1.IH" by auto
    have "\<forall>k>c. completed_at env k \<or> extendLifecycleAction_err env k \<noteq> None \<longrightarrow>
            snd (sendHeartbeat_loop env m (Suc c)) \<le> k"
    proof (intro allI impI)
      fix k assume k: "c < k" and stop: "completed_at env k \<or> extendLifecycleAction_err env k \<noteq> None"
      from False stop have "k \<noteq> Suc c" by auto
      with k have "Suc c < k" by simp
      with ih stop show "snd (sendHeartbeat_loop env m (Suc c)) \<le> k" by blast
    qed
    with ih False show ?thesis
      unfolding eq by auto
  qed
qed

lemma go_quot_pos: "0 \<le> a \<Longrightarrow> 0 < b \<Longrightarrow> go_quot a b = a div b"
  by (simp add: go_quot_def)

lemma div_le_ceiling: "0 < (r::int) \<Longrightarrow> 3600 div r \<le> \<lceil>3600 / real_of_int r\<rceil>"
proof -
  assume "0 < r"
  have "3600 div r = \<lfloor>real_of_int 3600 / real_of_int r\<rfloor>"
    by (simp only: floor_divide_of_int_eq)
  also have "\<dots> \<le> \<lceil>real_of_int 3600 / real_of_int r\<rceil>"
    by (rule floor_le_ceiling)
  finally show ?thesis by simp
qed

text \<open>
  For a heartbeat interval of at least 2 the driver does not panic, the
  loop runs with \<^verbatim>\<open>recommendedInterval = heartbeatInterval / 2\<close> (Go's integer
  quotient) and leaves after at least one and at most
  \<open>\<lceil>3600 / recommendedInterval\<rceil>\<close> iterations, and no later than the first iteration in
  which it reads \<^verbatim>\<open>eventCompleted\<close> as true or in which the heartbeat call fails.
\<close>

theorem sendHeartbeat_bounded:
  assumes "2 \<le> interval"
  shows "sendHeartbeat env interval =
           Inr (sendHeartbeat_loop env (3600 div (interval div 2)) 0) \<and>
         1 \<le> snd (sendHeartbeat_loop env (3600 div (interval div 2)) 0) \<and>
         int (snd (sendHeartbeat_loop env (3600 div (interval div 2)) 0))
           \<le> \<lceil>3600 / real_of_int (interval div 2)\<rceil> \<and>
         (\<forall>k>0. completed_at env k \<or> extendLifecycleAction_err env k \<noteq> None \<longrightarrow>
            snd (sendHeartbeat_loop env (3600 div (interval div 2)) 0) \<le> k)"
proof -
  let ?r = "interval div 2"
  from assms have r: "0 < ?r" by simp
  have q1: "go_quot interval 2 = ?r"
    using assms by (simp add: go_quot_pos)
  have q2: "go_quot 3600 ?r = 3600 div ?r"
    using r by (simp add: go_quot_pos)
  have run: "sendHeartbeat env interval = Inr (sendHeartbeat_loop env (3600 div ?r) 0)"
    using r by (simp add: sendHeartbeat_def go_div_def q1 q2)
  note b = sendHeartbeat_loop_bounds [of 0 env "3600 div ?r"]
  have "1 \<le> \<lceil>3600 / real_of_int ?r\<rceil>"
    using r by simp
  with div_le_ceiling [OF r] b
  have "int (snd (sendHeartbeat_loop env (3600 div ?r) 0)) \<le> \<lceil>3600 / real_of_int ?r\<rceil>"
    by linarith
  with run b show ?thesis by simp
qed

lemma sendHeartbeat_quiet_3600: "sendHeartbeat_loop hb_env_quiet 2 0 = (ExitThreshold, 2)"
  by (simp add: sendHeartbeat_loop.simps [of _ _ 0] sendHeartbeat_loop.simps [of _ _ "Suc 0"]
      hb_env_quiet_def)

theorem sendHeartbeat_bounded_witness:
  "(2::int) \<le> 3600 \<and> sendHeartbeat hb_env_quiet 3600 = Inr (ExitThreshold, 2) \<and>
   int (snd (ExitThreshold, 2::nat)) \<le> \<lceil>3600 / real_of_int (3600 div 2)\<rceil>"
  using sendHeartbeat_bounded [of 3600 hb_env_quiet]
  by (simp add: sendHeartbeat_quiet_3600)

text \<open>
  C6: at the non-zero heartbeat intervals 1 and -1 the driver performs no bounded number
  of iterations and does not terminate by itself: \<^verbatim>\<open>recommendedInterval\<close> is the
  integer quotient \<open>1 / 2 = 0\<close>, and \<^verbatim>\<open>3600 / recommendedInterval\<close>, which has no
  guard, panics with a division by zero before the loop starts.
\<close>

theorem sendHeartbeat_interval_1_panics:
  "(1::int) \<noteq> 0 \<and> go_div 1 2 = Inr 0 \<and> sendHeartbeat hb_env_quiet 1 = Inl DivideByZero \<and>
   (-1::int) \<noteq> 0 \<and> go_div (-1) 2 = Inr 0 \<and> sendHeartbeat hb_env_quiet (-1) = Inl DivideByZero"
  by (simp add: sendHeartbeat_def go_div_def go_quot_def)

lemma newPoller_iteration_output:
  "newPoller_iteration interval (Some Messages, err) =
     (Poll_SetGauge #
      (case err of Some e \<Rightarrow> [Poll_LogReceiveError, Poll_Sleep interval] | None \<Rightarrow> []) @
      (if Messages = [] then [Poll_LogNoMessages] else []) @ map Poll_ChannelSend Messages,
      None)"
  by (simp add: newPoller_iteration_def)



text \<open>
  C10: in the crash-resume loop every non-empty annotation value gets exactly one worker,
  started with the message that \<^verbatim>\<open>deserializeMessage\<close> returned, whether or not it
  also returned an error; an error adds one log line and nothing else.
\<close>

theorem Start_resume_spawns_for_every_annotation:
  "filter is_SpawnWorker (Start_resume deserializeMessage inProgressEvents) =
     map (\<lambda>nv. Start_SpawnWorker (fst (deserializeMessage (snd nv))))
       (filter (\<lambda>nv. snd nv \<noteq> []) inProgressEvents) \<and>
   length (filter is_LogResumeError (Start_resume deserializeMessage inProgressEvents)) =
     length (filter (\<lambda>nv. snd nv \<noteq> [] \<and> snd (deserializeMessage (snd nv)) \<noteq> None)
       inProgressEvents)"
  by (induction inProgressEvents) (auto split: option.splits)

theorem Start_resume_spawns_witness:
  "Start_resume (\<lambda>s. ([], Some (PlainErr ''invalid character'')))
     [(''node-1'', ''{''), (''node-2'', [])] =
     [Start_LogResume ''node-1'', Start_LogResumeError, Start_SpawnWorker []] \<and>
   filter is_SpawnWorker
     (Start_resume (\<lambda>s. ([], Some (PlainErr ''invalid character'')))
        [(''node-1'', ''{''), (''node-2'', [])]) = [Start_SpawnWorker []]"
  using Start_resume_spawns_for_every_annotation
    [of "\<lambda>s. ([], Some (PlainErr ''invalid character''))" "[(''node-1'', ''{''), (''node-2'', [])]"]
  by simp

lemma WithDeregister_emit [simp]: "WithDeregister (emit es mgr) = WithDeregister mgr"
  by (simp add: emit_def)

lemma WithDeregister_SetDrainCompleted [simp]:
  "WithDeregister (SetDrainCompleted p b mgr) = WithDeregister mgr"
  by (simp add: SetDrainCompleted_def)

lemma WithDeregister_drainNodeTarget [simp]:
  "WithDeregister (snd (drainNodeTarget env p mgr)) = WithDeregister mgr"
  by (simp add: drainNodeTarget_def Let_def split: option.splits)

lemma fst_drainNodeTarget [simp]: "fst (drainNodeTarget env p mgr) = drainNode_err env"
  by (simp add: drainNodeTarget_def Let_def split: option.splits)

lemma fst_handleEvent_drain_stage: "fst (handleEvent_drain_stage env p mgr) = drainNode_err env"
  by (simp add: handleEvent_drain_stage_def Let_def)

lemma WithDeregister_handleEvent_drain_stage:
  "WithDeregister (snd (handleEvent_drain_stage env p mgr)) = WithDeregister mgr"
  by (simp add: handleEvent_drain_stage_def Let_def split: option.splits)

text \<open>What \<^verbatim>\<open>handleEvent\<close> returns is what the deregister stage returned.\<close>

lemma fst_handleEvent:
  "fst (handleEvent env p mgr) =
     fst (drainLoadbalancerTarget env p
            (emit [Metric_IncGauge ''DeregisteringInstancesCountMetric'']
               (snd (handleEvent_drain_stage env p mgr))))"
  by (simp add: handleEvent_def Let_def split: prod.splits call_result.splits option.splits)

lemma handleEvent_without_deregister:
  "\<not> WithDeregister mgr \<Longrightarrow> fst (handleEvent env p mgr) = Returns None"
  by (simp add: fst_handleEvent drainLoadbalancerTarget_def WithDeregister_handleEvent_drain_stage)

lemma WithDeregister_AddEvent: "WithDeregister (AddEvent env p mgr) = WithDeregister mgr"
  by (simp add: AddEvent_def Let_def SetEventTimeStarted_def)

text \<open>In that case \<^verbatim>\<open>Process\<close> goes on to complete the event.\<close>

lemma Process_without_deregister:
  "\<not> WithDeregister mgr \<Longrightarrow>
   Process env lbenv p mgr =
     (Returns None, CompleteEvent env p (snd (handleEvent lbenv p (AddEvent env p mgr))))"
  using handleEvent_without_deregister [of "AddEvent env p mgr" lbenv p]
  by (cases "handleEvent lbenv p (AddEvent env p mgr)")
     (simp add: Process_def WithDeregister_AddEvent)

text \<open>
  C1: the drain tool fails and deregistration is switched off. The drain stage leaves its
  error in \<^verbatim>\<open>err\<close>, the deregister stage returns nil at once and overwrites it, and
  \<^verbatim>\<open>handleEvent\<close> returns nil: the drain error does not reach the worker.
\<close>

theorem handleEvent_loses_drain_error:
  "fst (handleEvent_drain_stage lb_env_drain_fails 0 mgr0) = Some (PlainErr ''drain failed'') \<and>
   \<not> WithDeregister mgr0 \<and>
   fst (handleEvent lb_env_drain_fails 0 mgr0) = Returns None"
proof -
  have w: "\<not> WithDeregister mgr0" by (simp add: mgr0_def)
  have d: "drainNode_err lb_env_drain_fails = Some (PlainErr ''drain failed'')"
    by (simp add: lb_env_drain_fails_def)
  show ?thesis
    by (simp add: fst_handleEvent_drain_stage d w handleEvent_without_deregister)
qed

lemma dereg_emit_simps [simp]:
  "errChannel (dereg_emit es st) = errChannel st"
  "dereg_effects (dereg_emit es st) = dereg_effects st @ es"
  "deregisteredLoadBalancers (dereg_emit es st) = deregisteredLoadBalancers st"
  "deregisteredTargetGroups (dereg_emit es st) = deregisteredTargetGroups st"
  by (simp_all add: dereg_emit_def)


lemma skip_body:
  "deregister_classic_body lb_env_skip False ''i-1'' ''node-1'' ''my-classic-elb'' dereg_init =
     Continue (dereg_init\<lparr>dereg_effects :=
                 [ELB_DeregisterInstance ''my-classic-elb'' ''i-1'',
                  Log ''warn'' ''ELB not found, skipping'']\<rparr>)"
  by (simp add: deregister_classic_body_def lb_env_skip_def lb_env_ok_def dereg_emit_def
      dereg_init_def)



lemma classic_body_lengths:
  "deregister_classic_body env c i n elb st = Continue st' \<Longrightarrow>
   length (deregisteredLoadBalancers st') \<le> Suc (length (deregisteredLoadBalancers st)) \<and>
   deregisteredTargetGroups st' = deregisteredTargetGroups st"
  by (auto simp: deregister_classic_body_def Let_def split: if_splits option.splits)

lemma classic_loop_lengths:
  "deregister_classic_loop env c i n elbs st = Continue st' \<Longrightarrow>
   length (deregisteredLoadBalancers st') \<le> length (deregisteredLoadBalancers st) + length elbs \<and>
   deregisteredTargetGroups st' = deregisteredTargetGroups st"
proof (induction elbs arbitrary: st)
  case Nil
  then show ?case by simp
next
  case (Cons elb elbs)
  then obtain st1 where b: "deregister_classic_body env c i n elb st = Continue st1"
    and l: "deregister_classic_loop env c i n elbs st1 = Continue st'"
    by (auto split: loop_step.splits)
  from classic_body_lengths [OF b] Cons.IH [OF l] show ?case by simp
qed

lemma length_update_le: "length (AList.update k v al) \<le> Suc (length al)"
  by (induction al) auto

lemma target_body_lengths:
  "deregister_target_body env c i n tg st = Continue st' \<Longrightarrow>
   length (deregisteredTargetGroups st') \<le> Suc (length (deregisteredTargetGroups st)) \<and>
   deregisteredLoadBalancers st' = deregisteredLoadBalancers st"
  by (auto simp: deregister_target_body_def Let_def length_update_le
      split: if_splits option.splits)

lemma target_loop_lengths:
  "deregister_target_loop env c i n tgs st = Continue st' \<Longrightarrow>
   length (deregisteredTargetGroups st') \<le> length (deregisteredTargetGroups st) + length tgs \<and>
   deregisteredLoadBalancers st' = deregisteredLoadBalancers st"
proof (induction tgs arbitrary: st)
  case Nil
  then show ?case by simp
next
  case (Cons tg tgs)
  then obtain st1 where b: "deregister_target_body env c i n tg st = Continue st1"
    and l: "deregister_target_loop env c i n tgs st1 = Continue st'"
    by (auto split: loop_step.splits)
  from target_body_lengths [OF b] Cons.IH [OF l] show ?case by simp
qed

text \<open>The waiters never outnumber the counter of the wait group.\<close>

lemma spawned_waiters_le_workQueueLength:
  assumes "deregister_phase env c i n activeTargetGroups activeLoadBalancers = Continue st"
  shows "length (spawned_waiters st) \<le> length activeTargetGroups + length activeLoadBalancers"
proof -
  from assms obtain st1 where
    c: "deregister_classic_loop env c i n activeLoadBalancers dereg_init = Continue st1" and
    t: "deregister_target_loop env c i n activeTargetGroups st1 = Continue st"
    by (auto simp: deregister_phase_def split: loop_step.splits)
  from classic_loop_lengths [OF c] target_loop_lengths [OF t] show ?thesis
    by (simp add: spawned_waiters_def dereg_init_def)
qed

lemma skip_phase:
  "deregister_phase lb_env_skip False ''i-1'' ''node-1'' [] [''my-classic-elb''] =
     Continue (dereg_init\<lparr>dereg_effects :=
                 [ELB_DeregisterInstance ''my-classic-elb'' ''i-1'',
                  Log ''warn'' ''ELB not found, skipping'']\<rparr>)"
  by (simp add: deregister_phase_def skip_body)

lemma skip_wait:
  "fst (wait_and_select lb_env_skip p ''node-1'' (Suc 0)
         (dereg_init\<lparr>dereg_effects :=
                 [ELB_DeregisterInstance ''my-classic-elb'' ''i-1'',
                  Log ''warn'' ''ELB not found, skipping'']\<rparr>) mgr) = NeverReturns"
  by (simp add: wait_and_select_def Let_def run_waiters_def spawned_waiters_def dereg_init_def
      coordinator_select_def)

lemma ev_dereg: "events mgr_dereg p = ev1" "WithDeregister mgr_dereg"
  by (simp_all add: mgr_dereg_def mgr0_def)

lemma skip_discover:
  "events mgr p = ev1 \<Longrightarrow>
   discover_and_deregister lb_env_skip p mgr =
     deregister_and_wait lb_env_skip p [] [''my-classic-elb''] mgr"
  by (simp add: discover_and_deregister_def lb_env_skip_def lb_env_ok_def)

lemma skip_deregister_and_wait:
  "events mgr p = ev1 \<Longrightarrow>
   fst (deregister_and_wait lb_env_skip p [] [''my-classic-elb''] mgr) = NeverReturns"
  by (simp add: deregister_and_wait_def Let_def ev1_def zero_LifecycleEvent_def skip_phase skip_wait)

text \<open>
  C2: the instance is a member of one classic balancer, and the deregister call finds the
  balancer gone and skips it. The wait group was sized with the one active pool, no
  waiter is started for it, so no \<^verbatim>\<open>Done\<close> is ever called, \<^verbatim>\<open>finished\<close> is never
  closed and the error channel stays empty: the \<^verbatim>\<open>select\<close> blocks for good and
  \<^verbatim>\<open>drainLoadbalancerTarget\<close> never returns.
\<close>

theorem wait_group_counts_skipped_pools:
  "deregister_phase lb_env_skip False ''i-1'' ''node-1'' [] [''my-classic-elb''] =
     Continue (dereg_init\<lparr>dereg_effects :=
                 [ELB_DeregisterInstance ''my-classic-elb'' ''i-1'',
                  Log ''warn'' ''ELB not found, skipping'']\<rparr>) \<and>
   length ([] :: (string \<times> int) list) + length [''my-classic-elb''] = 1 \<and>
   spawned_waiters (dereg_init\<lparr>dereg_effects :=
                 [ELB_DeregisterInstance ''my-classic-elb'' ''i-1'',
                  Log ''warn'' ''ELB not found, skipping'']\<rparr>) = [] \<and>
   coordinator_select True 1 0 [] = SelectBlocked \<and>
   fst (drainLoadbalancerTarget lb_env_skip 0 mgr_dereg) = NeverReturns"
proof -
  have l: "labelNode_err lb_env_skip = None"
    by (simp add: lb_env_skip_def lb_env_ok_def)
  have d: "fst (drainLoadbalancerTarget lb_env_skip 0 mgr_dereg) = NeverReturns"
    by (simp add: drainLoadbalancerTarget_def Let_def ev_dereg l skip_discover
        skip_deregister_and_wait)
  show ?thesis
    by (simp add: skip_phase d spawned_waiters_def dereg_init_def coordinator_select_def)
qed


text \<open>
  The two deregistration scenarios of the test suite: with every call succeeding the
  stage returns nil and marks the event, with a deregister call failing on another error
  \<^verbatim>\<open>handleEvent\<close> returns that error, wrapped.
\<close>

lemma ok_discover:
  "events mgr p = ev1 \<Longrightarrow>
   discover_and_deregister lb_env_ok p mgr =
     deregister_and_wait lb_env_ok p [] [''my-classic-elb''] mgr"
  by (simp add: discover_and_deregister_def lb_env_ok_def)

lemma ok_deregister_and_wait:
  "events mgr p = ev1 \<Longrightarrow>
   fst (deregister_and_wait lb_env_ok p [] [''my-classic-elb''] mgr) = Returns None \<and>
   deregisterCompleted
     (events (snd (deregister_and_wait lb_env_ok p [] [''my-classic-elb''] mgr)) p)"
  by (simp add: deregister_and_wait_def Let_def ev1_def zero_LifecycleEvent_def
      deregister_phase_def deregister_classic_body_def dereg_emit_def dereg_init_def
      wait_and_select_def run_waiters_def spawned_waiters_def coordinator_select_def
      SetDeregisterCompleted_def lb_env_ok_def)

lemma drainLoadbalancerTarget_ok:
  "fst (drainLoadbalancerTarget lb_env_ok 0 mgr_dereg) = Returns None \<and>
   deregisterCompleted (events (snd (drainLoadbalancerTarget lb_env_ok 0 mgr_dereg)) 0)"
proof -
  have l: "labelNode_err lb_env_ok = None" "\<not> nodeAge lb_env_ok \<le> NodeAgeCacheTTL lb_env_ok"
    by (simp_all add: lb_env_ok_def)
  show ?thesis
    by (simp add: drainLoadbalancerTarget_def Let_def ev_dereg l ok_discover
        ok_deregister_and_wait)
qed

lemma other_error_deregister_and_wait:
  "events mgr p = ev1 \<Longrightarrow>
   fst (deregister_and_wait lb_env_other_error p [] [''my-classic-elb''] mgr) =
     Returns (Some (Wrapped (AwsErr ''some-other-error'') ''failed to process alb-drain: ''))"
  by (simp add: deregister_and_wait_def Let_def ev1_def zero_LifecycleEvent_def
      deregister_phase_def deregister_classic_body_def dereg_emit_def dereg_init_def
      wait_and_select_def run_waiters_def spawned_waiters_def coordinator_select_def
      lb_env_other_error_def lb_env_ok_def ErrCodeAccessPointNotFoundException_def
      ErrCodeInvalidEndPointException_def)

end
